theory Spec2Isabelle
  imports Main
begin

section \<open>Dynamically typed values and raw records\<close>

text \<open>
  The plugin handles decoded BSON documents as Go values of type
  \<^verbatim>\<open>map[string]interface{}\<close> (\<^verbatim>\<open>bson.M\<close>). An \<^verbatim>\<open>interface{}\<close> value is a tagged
  union of the dynamic types a decoded document can hold; \<open>VNil\<close> is the nil
  interface, which is also what indexing a Go map at a missing key returns.
  A 64-bit float is kept only up to the distinction that matters to a JSON
  encoder: finite (mantissa and binary exponent), not-a-number, or infinite.
\<close>

datatype float64 = Finite int int | NaN | PosInf | NegInf

datatype iface =
    VNil
  | VString string
  | VBool bool
  | VInt int
  | VDouble float64
  | VDoc "string \<Rightarrow> iface option"
  | VArray "iface list"

type_synonym bsonM = "string \<Rightarrow> iface option"

type_synonym bytes = string

text \<open>\<^verbatim>\<open>m[k]\<close> on a Go map: the stored value, or the nil interface when the key is absent.\<close>

definition index :: "bsonM \<Rightarrow> string \<Rightarrow> iface" where
  "index m k = (case m k of None \<Rightarrow> VNil | Some v \<Rightarrow> v)"

fun isString :: "iface \<Rightarrow> bool" where
  "isString (VString s) = True"
| "isString v = False"

section \<open>Errors, panics and outcomes of a call\<close>

datatype error =
    ConfigError string
  | DriverError string
  | ErrClientDisconnected
  | UnsupportedValueError

datatype panic =
    PanicError error
  | InterfaceConversion iface
  | NilFuncCall

text \<open>
  A call either returns, aborts with a panic, or stays suspended on the
  channel receive because nothing is offered to it.
\<close>

datatype 'a outcome = Return 'a | Panic panic | Blocked

text \<open>\<^verbatim>\<open>v.(string)\<close>: the unchecked type assertion panics unless the dynamic type is string.\<close>

fun assertString :: "iface \<Rightarrow> panic + string" where
  "assertString (VString s) = Inr s"
| "assertString v = Inl (InterfaceConversion v)"

section \<open>The database driver as environment\<close>

text \<open>
  The MongoDB driver is an external collaborator. What it answers is taken
  as data: the result of \<^verbatim>\<open>mongo.Connect\<close> for a URI, of \<^verbatim>\<open>Find\<close> and
  \<^verbatim>\<open>Watch\<close> on a database and collection name, and of \<^verbatim>\<open>Disconnect\<close> on a
  handle on which \<^verbatim>\<open>Disconnect\<close> was already invoked a given number of times.
  A cursor or change stream is the list of the items its \<^verbatim>\<open>Next\<close> yields, each
  with the result of \<^verbatim>\<open>Decode\<close> on it; a cursor also has the error its
  \<^verbatim>\<open>Err\<close> reports after \<^verbatim>\<open>Next\<close> has returned false. For a change
  stream the list holds the events yielded until \<^verbatim>\<open>Next\<close> returns false,
  which is when the stream fails or is shut down.
\<close>

record client =
  disconnects :: nat

record cursor =
  items :: "(error + bsonM) list"
  cursorErr :: "error option"

type_synonym changeStream = "(error + bsonM) list"

record driver =
  mongoConnect :: "string \<Rightarrow> error + client"
  collFind :: "string \<Rightarrow> string \<Rightarrow> error + cursor"
  collWatch :: "string \<Rightarrow> string \<Rightarrow> error + changeStream"
  clientDisconnect :: "nat \<Rightarrow> error option"

text \<open>
  What a task does that is visible outside it, in program order: calls into
  the driver, the line printed by \<^verbatim>\<open>takeSnapshot\<close>, and sends on the channel.
\<close>

datatype call = MongoConnect | Find | Watch | CursorClose | StreamClose | Disconnect

datatype action = Call call | Print string | Send bsonM

datatype ending = Returned | Panicked error

record goroutine =
  trace :: "action list"
  ending :: ending

fun sends :: "action list \<Rightarrow> bsonM list" where
  "sends [] = []"
| "sends (Send ev # as) = ev # sends as"
| "sends (a # as) = sends as"

fun calls :: "action list \<Rightarrow> call list" where
  "calls [] = []"
| "calls (Call c # as) = c # calls as"
| "calls (a # as) = calls as"

section \<open>The connector\<close>

text \<open>
  \<^verbatim>\<open>mongoStreamInput\<close>. The channel \<open>stream\<close> is unbuffered and has one producer
  (the single background task started by \<open>Connect\<close>, which sends
  sequentially and waits at each send until \<open>Read\<close> receives) and one consumer;
  it is modelled with its producer as the queue of the events the producer
  still has to hand over, in send order. The context is \<open>None\<close> while the field
  is nil, \<open>Some False\<close> while live and \<open>Some True\<close> once cancelled; the
  cancel function is nil (\<open>None\<close>) or the function cancelling that context.
\<close>

record mongoStreamInput =
  uri :: string
  database :: string
  collection :: string
  client :: "client option"
  stream :: "bsonM list"
  streamSnapshot :: bool
  context' :: "bool option"
  cancelFunc :: "unit option"

text \<open>
  \<^verbatim>\<open>newMongoStreamInput\<close> reads the four configuration fields in order and
  returns the first error; the connector starts with no client, a fresh
  channel and no context. The host's retry wrapper around the result is not
  part of the plugin.
\<close>

record parsedConfig =
  FieldString :: "string \<Rightarrow> error + string"
  FieldBool :: "string \<Rightarrow> error + bool"

definition newMongoStreamInput :: "parsedConfig \<Rightarrow> error + mongoStreamInput" where
  "newMongoStreamInput conf =
     (case FieldString conf ''uri'' of Inl err \<Rightarrow> Inl err | Inr u \<Rightarrow>
      (case FieldString conf ''database'' of Inl err \<Rightarrow> Inl err | Inr d \<Rightarrow>
       (case FieldString conf ''collection'' of Inl err \<Rightarrow> Inl err | Inr c \<Rightarrow>
        (case FieldBool conf ''stream_snapshot'' of Inl err \<Rightarrow> Inl err | Inr s \<Rightarrow>
           Inr \<lparr>uri = u, database = d, collection = c, client = None, stream = [],
                streamSnapshot = s, context' = None, cancelFunc = None\<rparr>))))"

subsection \<open>Normalization\<close>

text \<open>
  \<^verbatim>\<open>processMessage\<close> builds the event map and sends it on the channel. The
  function below is the event it builds; the send is the \<open>Send\<close> action of the
  task that calls it. The comparison \<^verbatim>\<open>case "delete"\<close> on an interface value
  holds exactly for the string \<^verbatim>\<open>delete\<close>.
\<close>

definition processMessage :: "mongoStreamInput \<Rightarrow> bsonM \<Rightarrow> bsonM" where
  "processMessage m data =
     (case data ''operationType'' of
        Some operation \<Rightarrow>
          (if operation = VString ''delete''
           then Map.empty(''action'' \<mapsto> operation,
                          ''database'' \<mapsto> VString (database m),
                          ''collection'' \<mapsto> VString (collection m),
                          ''data'' \<mapsto> index data ''documentKey'')
           else Map.empty(''action'' \<mapsto> operation,
                          ''database'' \<mapsto> VString (database m),
                          ''collection'' \<mapsto> VString (collection m),
                          ''data'' \<mapsto> index data ''fullDocument''))
      | None \<Rightarrow>
          Map.empty(''action'' \<mapsto> VString ''insert'',
                    ''database'' \<mapsto> VString (database m),
                    ''collection'' \<mapsto> VString (collection m),
                    ''data'' \<mapsto> VDoc data))"

subsection \<open>The background task\<close>

text \<open>
  The body shared by the two iteration loops: for every item that \<^verbatim>\<open>Next\<close>
  yields, \<^verbatim>\<open>Decode\<close> it (a failure panics and ends the loop), then
  \<^verbatim>\<open>processMessage\<close>, which sends the event. The result is the sends made and
  the decode error that stopped the loop, if any.
\<close>

fun iterate :: "mongoStreamInput \<Rightarrow> (error + bsonM) list \<Rightarrow> action list \<times> error option" where
  "iterate m [] = ([], None)"
| "iterate m (Inl err # rest) = ([], Some err)"
| "iterate m (Inr data # rest) =
     (case iterate m rest of (acts, r) \<Rightarrow> (Send (processMessage m data) # acts, r))"

text \<open>
  \<^verbatim>\<open>iterateCursor\<close>: the deferred \<^verbatim>\<open>cursor.Close\<close> runs on every way out; after
  the loop \<^verbatim>\<open>cursor.Err\<close> is checked and panics when set.
\<close>

definition iterateCursor :: "mongoStreamInput \<Rightarrow> cursor \<Rightarrow> goroutine" where
  "iterateCursor m cur =
     (case iterate m (items cur) of
        (acts, Some err) \<Rightarrow> \<lparr>trace = acts @ [Call CursorClose], ending = Panicked err\<rparr>
      | (acts, None) \<Rightarrow>
          (case cursorErr cur of
             Some err \<Rightarrow> \<lparr>trace = acts @ [Call CursorClose], ending = Panicked err\<rparr>
           | None \<Rightarrow> \<lparr>trace = acts @ [Call CursorClose], ending = Returned\<rparr>))"

definition iterateChangeStream :: "mongoStreamInput \<Rightarrow> changeStream \<Rightarrow> goroutine" where
  "iterateChangeStream m s =
     (case iterate m s of
        (acts, Some err) \<Rightarrow> \<lparr>trace = acts @ [Call StreamClose], ending = Panicked err\<rparr>
      | (acts, None) \<Rightarrow> \<lparr>trace = acts @ [Call StreamClose], ending = Returned\<rparr>)"

definition takeSnapshot :: "driver \<Rightarrow> mongoStreamInput \<Rightarrow> goroutine" where
  "takeSnapshot drv m =
     (case collFind drv (database m) (collection m) of
        Inl err \<Rightarrow> \<lparr>trace = [Call Find, Print ''Snapshot''], ending = Panicked err\<rparr>
      | Inr cur \<Rightarrow>
          (let g1 = iterateCursor m cur in
           case ending g1 of
             Panicked err \<Rightarrow>
               \<lparr>trace = [Call Find, Print ''Snapshot''] @ trace g1, ending = Panicked err\<rparr>
           | Returned \<Rightarrow>
               (case collWatch drv (database m) (collection m) of
                  Inl err \<Rightarrow>
                    \<lparr>trace = [Call Find, Print ''Snapshot''] @ trace g1 @ [Call Watch],
                     ending = Panicked err\<rparr>
                | Inr s \<Rightarrow>
                    (let g2 = iterateChangeStream m s in
                     \<lparr>trace = [Call Find, Print ''Snapshot''] @ trace g1 @ [Call Watch] @ trace g2,
                      ending = ending g2\<rparr>))))"

subsection \<open>Connect\<close>

text \<open>
  \<^verbatim>\<open>Connect\<close> returns nil or panics. Its result records the outcome, the
  connector afterwards, the driver calls \<^verbatim>\<open>Connect\<close> made itself, and the
  task it started with \<^verbatim>\<open>go\<close>, if any. Starting the task makes the events it
  will send available on the channel, in its send order.
\<close>

record connectResult =
  result :: "error option outcome"
  conn :: mongoStreamInput
  connTrace :: "action list"
  spawned :: "goroutine option"

definition Connect :: "driver \<Rightarrow> mongoStreamInput \<Rightarrow> connectResult" where
  "Connect drv m =
     (case mongoConnect drv (uri m) of
        Inl err \<Rightarrow>
          \<lparr>result = Panic (PanicError err), conn = m\<lparr>client := None\<rparr>,
           connTrace = [Call MongoConnect], spawned = None\<rparr>
      | Inr c \<Rightarrow>
          (let m1 = m\<lparr>client := Some c\<rparr>;
               m2 = m1\<lparr>context' := Some False, cancelFunc := Some ()\<rparr>
           in if streamSnapshot m2 then
                (let g = takeSnapshot drv m2 in
                 \<lparr>result = Return None, conn = m2\<lparr>stream := stream m2 @ sends (trace g)\<rparr>,
                  connTrace = [Call MongoConnect], spawned = Some g\<rparr>)
              else
                (case collWatch drv (database m2) (collection m2) of
                   Inl err \<Rightarrow>
                     \<lparr>result = Panic (PanicError err), conn = m2,
                      connTrace = [Call MongoConnect, Call Watch], spawned = None\<rparr>
                 | Inr s \<Rightarrow>
                     (let g = iterateChangeStream m2 s in
                      \<lparr>result = Return None, conn = m2\<lparr>stream := stream m2 @ sends (trace g)\<rparr>,
                       connTrace = [Call MongoConnect, Call Watch], spawned = Some g\<rparr>))))"

subsection \<open>Close\<close>

text \<open>
  \<^verbatim>\<open>Close\<close> returns the result of \<^verbatim>\<open>Disconnect\<close> when the client field is set;
  only otherwise does it reach the call of the cancel function, and calling a
  nil function value panics.
\<close>

definition Close :: "driver \<Rightarrow> mongoStreamInput \<Rightarrow> error option outcome \<times> mongoStreamInput" where
  "Close drv m =
     (case client m of
        Some c \<Rightarrow>
          (Return (clientDisconnect drv (disconnects c)),
           m\<lparr>client := Some (c\<lparr>disconnects := Suc (disconnects c)\<rparr>)\<rparr>)
      | None \<Rightarrow>
          (case cancelFunc m of
             None \<Rightarrow> (Panic NilFuncCall, m)
           | Some f \<Rightarrow> (Return None, m\<lparr>context' := map_option (\<lambda>done. True) (context' m)\<rparr>)))"

subsection \<open>Read\<close>

text \<open>
  A host message: the body bytes and the metadata set on it. \<^verbatim>\<open>Read\<close>
  returns the message, the acknowledgement function (which returns nil for
  every argument) and a nil error. \<^verbatim>\<open>json.Marshal\<close> belongs to Go's standard
  library and is a parameter; on failure it returns nil bytes with the error,
  and \<^verbatim>\<open>Read\<close> discards the error.
\<close>

record message =
  body :: bytes
  meta :: "string \<Rightarrow> string option"

definition NewMessage :: "bytes \<Rightarrow> message" where
  "NewMessage content = \<lparr>body = content, meta = Map.empty\<rparr>"

definition MetaSet :: "message \<Rightarrow> string \<Rightarrow> string \<Rightarrow> message" where
  "MetaSet msg k v = msg\<lparr>meta := (meta msg)(k \<mapsto> v)\<rparr>"

record readResult =
  msg :: message
  ack :: "error option \<Rightarrow> error option"
  err :: "error option"

definition Read ::
  "(iface \<Rightarrow> error + bytes) \<Rightarrow> mongoStreamInput \<Rightarrow> readResult outcome \<times> mongoStreamInput" where
  "Read marshal m =
     (case stream m of
        [] \<Rightarrow> (Blocked, m)
      | snapshotMessage # rest \<Rightarrow>
          (let m' = m\<lparr>stream := rest\<rparr>;
               messageBodyEncoded =
                 (case marshal (index snapshotMessage ''data'') of
                    Inl e \<Rightarrow> []
                  | Inr encoded \<Rightarrow> encoded);
               createdMessage = NewMessage messageBodyEncoded
           in case assertString (index snapshotMessage ''collection'') of
                Inl p \<Rightarrow> (Panic p, m')
              | Inr c \<Rightarrow>
                  (let createdMessage = MetaSet createdMessage ''table'' c
                   in case assertString (index snapshotMessage ''database'') of
                        Inl p \<Rightarrow> (Panic p, m')
                      | Inr d \<Rightarrow>
                          (let createdMessage = MetaSet createdMessage ''schema'' d
                           in case assertString (index snapshotMessage ''action'') of
                                Inl p \<Rightarrow> (Panic p, m')
                              | Inr a \<Rightarrow>
                                  (let createdMessage = MetaSet createdMessage ''event'' a
                                   in (Return \<lparr>msg = createdMessage, ack = (\<lambda>e. None),
                                               err = None\<rparr>, m'))))))"


text \<open>
  Successive calls of \<^verbatim>\<open>Close\<close>: the results in call order and the
  connector after the last one. A call that panics is the last one.
\<close>

fun Closes :: "driver \<Rightarrow> nat \<Rightarrow> mongoStreamInput \<Rightarrow> error option outcome list \<times> mongoStreamInput" where
  "Closes drv 0 m = ([], m)"
| "Closes drv (Suc n) m =
     (case Close drv m of
        (Return r, m') \<Rightarrow> (case Closes drv n m' of (rs, m'') \<Rightarrow> (Return r # rs, m''))
      | (other, m') \<Rightarrow> ([other], m'))"

subsection \<open>The JSON encoder as environment\<close>

text \<open>
  \<^verbatim>\<open>encoding/json\<close> rejects a value with an unsupported-value error when it
  meets a float that is not finite, at any depth; the decoded BSON values
  above hold nothing else it rejects. Which text it produces for a value it
  accepts is left to the argument \<open>enc\<close>.
\<close>

inductive unsupported :: "iface \<Rightarrow> bool" where
  "unsupported (VDouble NaN)"
| "unsupported (VDouble PosInf)"
| "unsupported (VDouble NegInf)"
| "f k = Some v \<Longrightarrow> unsupported v \<Longrightarrow> unsupported (VDoc f)"
| "v \<in> set vs \<Longrightarrow> unsupported v \<Longrightarrow> unsupported (VArray vs)"

definition jsonMarshal :: "(iface \<Rightarrow> bytes) \<Rightarrow> iface \<Rightarrow> error + bytes" where
  "jsonMarshal enc v = (if unsupported v then Inl UnsupportedValueError else Inr (enc v))"

subsection \<open>Notions used to state the properties\<close>

text \<open>The records a cursor or change stream yields before the first decode failure.\<close>

fun decoded :: "(error + bsonM) list \<Rightarrow> bsonM list" where
  "decoded [] = []"
| "decoded (Inl e # rest) = []"
| "decoded (Inr d # rest) = d # decoded rest"


text \<open>
  The message expected for an event with the given collection, database and
  action strings: the body is the encoding of the payload, empty when the
  encoder fails; the metadata are table, schema and event.
\<close>

definition expectedBody :: "(iface \<Rightarrow> error + bytes) \<Rightarrow> iface \<Rightarrow> bytes" where
  "expectedBody marshal payload = (case marshal payload of Inl e \<Rightarrow> [] | Inr encoded \<Rightarrow> encoded)"

definition expectedResult :: "bytes \<Rightarrow> string \<Rightarrow> string \<Rightarrow> string \<Rightarrow> readResult" where
  "expectedResult content c d a =
     \<lparr>msg = \<lparr>body = content,
              meta = Map.empty(''table'' \<mapsto> c, ''schema'' \<mapsto> d, ''event'' \<mapsto> a)\<rparr>,
      ack = (\<lambda>e. None), err = None\<rparr>"

fun stringOf :: "iface \<Rightarrow> string" where
  "stringOf (VString s) = s"
| "stringOf v = []"

definition delivered :: "(iface \<Rightarrow> error + bytes) \<Rightarrow> bsonM \<Rightarrow> readResult" where
  "delivered marshal ev =
     expectedResult (expectedBody marshal (index ev ''data''))
       (stringOf (index ev ''collection'')) (stringOf (index ev ''database''))
       (stringOf (index ev ''action''))"

subsection \<open>Concrete inputs\<close>

text \<open>The records of the specification's scenarios, a document whose
  \<^verbatim>\<open>operationType\<close> field is a number, and an update to a document that holds
  a not-a-number float.\<close>

definition updateRecord :: bsonM where
  "updateRecord =
     Map.empty(''operationType'' \<mapsto> VString ''update'',
               ''fullDocument'' \<mapsto> VDoc (Map.empty(''_id'' \<mapsto> VInt 1, ''x'' \<mapsto> VInt 2)))"

definition deleteRecord :: bsonM where
  "deleteRecord =
     Map.empty(''operationType'' \<mapsto> VString ''delete'',
               ''documentKey'' \<mapsto> VDoc (Map.empty(''_id'' \<mapsto> VInt 1)),
               ''fullDocument'' \<mapsto> VDoc (Map.empty(''_id'' \<mapsto> VInt 1, ''x'' \<mapsto> VInt 2)))"

definition plainRecord :: bsonM where
  "plainRecord = Map.empty(''_id'' \<mapsto> VInt 5, ''name'' \<mapsto> VString ''a'')"

definition numberedRecord :: bsonM where
  "numberedRecord = Map.empty(''_id'' \<mapsto> VInt 7, ''operationType'' \<mapsto> VInt 5)"


definition exampleConfig :: "bool \<Rightarrow> parsedConfig" where
  "exampleConfig snapshot =
     \<lparr>FieldString = (\<lambda>k. if k = ''uri'' then Inr ''mongodb://localhost:27017''
                         else if k = ''database'' then Inr ''db''
                         else if k = ''collection'' then Inr ''c''
                         else Inl (ConfigError k)),
      FieldBool = (\<lambda>k. if k = ''stream_snapshot'' then Inr snapshot else Inl (ConfigError k))\<rparr>"

definition exampleInput :: "bool \<Rightarrow> mongoStreamInput" where
  "exampleInput snapshot =
     \<lparr>uri = ''mongodb://localhost:27017'', database = ''db'', collection = ''c'',
      client = None, stream = [], streamSnapshot = snapshot,
      context' = None, cancelFunc = None\<rparr>"

text \<open>
  A driver that gives fixed answers to \<^verbatim>\<open>mongo.Connect\<close>, \<^verbatim>\<open>Find\<close> and
  \<^verbatim>\<open>Watch\<close>; its \<^verbatim>\<open>Disconnect\<close> succeeds once and reports a disconnected
  client afterwards, as the MongoDB driver does. The example driver connects,
  scans the given documents and tails the given change events.
\<close>

definition scriptedDriver ::
  "(error + client) \<Rightarrow> (error + cursor) \<Rightarrow> (error + changeStream) \<Rightarrow> driver" where
  "scriptedDriver connected found watched =
     \<lparr>mongoConnect = (\<lambda>u. connected),
      collFind = (\<lambda>d c. found),
      collWatch = (\<lambda>d c. watched),
      clientDisconnect = (\<lambda>n. if n = 0 then None else Some ErrClientDisconnected)\<rparr>"

definition exampleDriver :: "bsonM list \<Rightarrow> bsonM list \<Rightarrow> driver" where
  "exampleDriver docs events =
     scriptedDriver (Inr \<lparr>disconnects = 0\<rparr>)
       (Inr \<lparr>items = map Inr docs, cursorErr = None\<rparr>) (Inr (map Inr events))"

definition refused :: error where
  "refused = DriverError ''connection refused''"

section \<open>Facts about normalization\<close>

lemma processMessage_plain:
  "data ''operationType'' = None \<Longrightarrow>
   processMessage m data =
     Map.empty(''action'' \<mapsto> VString ''insert'', ''database'' \<mapsto> VString (database m),
               ''collection'' \<mapsto> VString (collection m), ''data'' \<mapsto> VDoc data)"
  by (simp add: processMessage_def)

lemma processMessage_delete:
  "data ''operationType'' = Some (VString ''delete'') \<Longrightarrow>
   processMessage m data =
     Map.empty(''action'' \<mapsto> VString ''delete'', ''database'' \<mapsto> VString (database m),
               ''collection'' \<mapsto> VString (collection m), ''data'' \<mapsto> index data ''documentKey'')"
  by (simp add: processMessage_def)

lemma processMessage_other:
  "data ''operationType'' = Some operation \<Longrightarrow> operation \<noteq> VString ''delete'' \<Longrightarrow>
   processMessage m data =
     Map.empty(''action'' \<mapsto> operation, ''database'' \<mapsto> VString (database m),
               ''collection'' \<mapsto> VString (collection m), ''data'' \<mapsto> index data ''fullDocument'')"
  by (simp add: processMessage_def)

lemma processMessage_database:
  "index (processMessage m data) ''database'' = VString (database m)"
  by (simp add: processMessage_def index_def split: option.splits)

lemma processMessage_collection:
  "index (processMessage m data) ''collection'' = VString (collection m)"
  by (simp add: processMessage_def index_def split: option.splits)

lemma processMessage_action:
  "index (processMessage m data) ''action'' =
     (case data ''operationType'' of None \<Rightarrow> VString ''insert'' | Some operation \<Rightarrow> operation)"
  by (simp add: processMessage_def index_def split: option.splits)

lemma processMessage_data:
  "index (processMessage m data) ''data'' =
     (case data ''operationType'' of
        None \<Rightarrow> VDoc data
      | Some operation \<Rightarrow>
          if operation = VString ''delete'' then index data ''documentKey''
          else index data ''fullDocument'')"
  by (simp add: processMessage_def index_def split: option.splits)

lemma processMessage_dom:
  "dom (processMessage m data) = {''action'', ''database'', ''collection'', ''data''}"
  by (auto simp: processMessage_def split: option.splits if_splits)

section \<open>Facts about reading\<close>



lemma assertString_panic: "\<not> isString v \<Longrightarrow> assertString v = Inl (InterfaceConversion v)"
  by (cases v) simp_all




lemma iterate_decoded:
  "sends (fst (iterate m its)) = map (processMessage m) (decoded its)"
  by (induction m its rule: iterate.induct) (auto split: prod.splits)

lemma iterate_all:
  "iterate m (map Inr rs) = (map (Send \<circ> processMessage m) rs, None)"
  by (induction rs) auto

lemma sends_append: "sends (xs @ ys) = sends xs @ sends ys"
  by (induction xs rule: sends.induct) auto

lemma calls_append: "calls (xs @ ys) = calls xs @ calls ys"
  by (induction xs rule: calls.induct) auto

lemma sends_map_Send: "sends (map (Send \<circ> f) rs) = map f rs"
  by (induction rs) auto

lemma calls_iterate: "calls (fst (iterate m its)) = []"
  by (induction m its rule: iterate.induct) (auto split: prod.splits)

lemma processMessage_cong:
  "database m' = database m \<Longrightarrow> collection m' = collection m \<Longrightarrow>
   processMessage m' = processMessage m"
  by (rule ext) (simp add: processMessage_def split: option.splits)

lemma delivered_processMessage:
  "index (processMessage m0 raw) ''action'' = VString a \<Longrightarrow>
   delivered marshal (processMessage m0 raw) =
   expectedResult (expectedBody marshal (index (processMessage m0 raw) ''data'')) (collection m0) (database m0) a"
  by (simp add: delivered_def processMessage_database processMessage_collection)




section \<open>Facts about the background task, connecting and closing\<close>

lemma processMessage_connected [simp]:
  "processMessage (m\<lparr>client := x, context' := y, cancelFunc := z\<rparr>) = processMessage m"
  by (rule processMessage_cong) simp_all

lemma iterate_cong:
  "database m' = database m \<Longrightarrow> collection m' = collection m \<Longrightarrow> iterate m' its = iterate m its"
proof (induction its)
  case Nil
  then show ?case by simp
next
  case (Cons it its)
  have "processMessage m' = processMessage m"
    by (rule processMessage_cong [OF Cons.prems])
  then show ?case using Cons by (cases it) simp_all
qed

lemma iterateCursor_all:
  "iterateCursor m \<lparr>items = map Inr ds, cursorErr = None\<rparr> =
     \<lparr>trace = map (Send \<circ> processMessage m) ds @ [Call CursorClose], ending = Returned\<rparr>"
  by (simp add: iterateCursor_def iterate_all)

lemma iterateChangeStream_all:
  "iterateChangeStream m (map Inr es) =
     \<lparr>trace = map (Send \<circ> processMessage m) es @ [Call StreamClose], ending = Returned\<rparr>"
  by (simp add: iterateChangeStream_def iterate_all)

lemma sends_iterateChangeStream:
  "sends (trace (iterateChangeStream m s)) = map (processMessage m) (decoded s)"
proof (cases "iterate m s")
  case (Pair acts r)
  then show ?thesis
    using iterate_decoded [of m s]
    by (cases r) (simp_all add: iterateChangeStream_def sends_append)
qed

lemma calls_iterateChangeStream:
  "calls (trace (iterateChangeStream m s)) = [StreamClose]"
proof (cases "iterate m s")
  case (Pair acts r)
  then show ?thesis
    using calls_iterate [of m s]
    by (cases r) (simp_all add: iterateChangeStream_def calls_append)
qed


lemma iterateCursor_connected:
  "iterateCursor (m\<lparr>client := x, context' := y, cancelFunc := z\<rparr>) cur = iterateCursor m cur"
  by (simp add: iterateCursor_def
      iterate_cong [of "m\<lparr>client := x, context' := y, cancelFunc := z\<rparr>" m])

lemma iterateChangeStream_connected:
  "iterateChangeStream (m\<lparr>client := x, context' := y, cancelFunc := z\<rparr>) s = iterateChangeStream m s"
  by (simp add: iterateChangeStream_def
      iterate_cong [of "m\<lparr>client := x, context' := y, cancelFunc := z\<rparr>" m])

lemma takeSnapshot_connected:
  "takeSnapshot drv (m\<lparr>client := x, context' := y, cancelFunc := z\<rparr>) = takeSnapshot drv m"
  unfolding takeSnapshot_def iterateCursor_connected iterateChangeStream_connected
  by (simp add: Let_def split: sum.splits ending.splits)

lemma Connect_snapshot:
  "streamSnapshot m \<Longrightarrow> mongoConnect drv (uri m) = Inr c \<Longrightarrow>
   Connect drv m =
     \<lparr>result = Return None,
      conn = m\<lparr>client := Some c, context' := Some False, cancelFunc := Some (),
                stream := stream m @ sends (trace (takeSnapshot drv m))\<rparr>,
      connTrace = [Call MongoConnect], spawned = Some (takeSnapshot drv m)\<rparr>"
  by (simp add: Connect_def Let_def takeSnapshot_connected)

lemma Connect_tail:
  "\<not> streamSnapshot m \<Longrightarrow> mongoConnect drv (uri m) = Inr c \<Longrightarrow>
   collWatch drv (database m) (collection m) = Inr s \<Longrightarrow>
   Connect drv m =
     \<lparr>result = Return None,
      conn = m\<lparr>client := Some c, context' := Some False, cancelFunc := Some (),
                stream := stream m @ map (processMessage m) (decoded s)\<rparr>,
      connTrace = [Call MongoConnect, Call Watch], spawned = Some (iterateChangeStream m s)\<rparr>"
  by (simp add: Connect_def Let_def iterateChangeStream_connected sends_iterateChangeStream)

lemma Connect_refused:
  "mongoConnect drv (uri m) = Inl e \<Longrightarrow>
   Connect drv m =
     \<lparr>result = Panic (PanicError e), conn = m\<lparr>client := None\<rparr>,
      connTrace = [Call MongoConnect], spawned = None\<rparr>"
  by (simp add: Connect_def)

lemma Connect_unwatchable:
  "\<not> streamSnapshot m \<Longrightarrow> mongoConnect drv (uri m) = Inr c \<Longrightarrow>
   collWatch drv (database m) (collection m) = Inl e \<Longrightarrow>
   Connect drv m =
     \<lparr>result = Panic (PanicError e),
      conn = m\<lparr>client := Some c, context' := Some False, cancelFunc := Some ()\<rparr>,
      connTrace = [Call MongoConnect, Call Watch], spawned = None\<rparr>"
  by (simp add: Connect_def Let_def)

lemma newMongoStreamInput_fresh:
  "newMongoStreamInput conf = Inr m \<Longrightarrow>
   stream m = [] \<and> client m = None \<and> context' m = None \<and> cancelFunc m = None"
  by (auto simp: newMongoStreamInput_def split: sum.splits)

lemma exampleConfig_input: "newMongoStreamInput (exampleConfig b) = Inr (exampleInput b)"
  by (simp add: newMongoStreamInput_def exampleConfig_def exampleInput_def)

lemma Close_connected:
  "client m = Some c \<Longrightarrow>
   Close drv m = (Return (clientDisconnect drv (disconnects c)),
                  m\<lparr>client := Some (c\<lparr>disconnects := Suc (disconnects c)\<rparr>)\<rparr>)"
  by (simp add: Close_def)

lemma Connect_result_cases:
  "result (Connect drv m) = Return None \<or> (\<exists>e. result (Connect drv m) = Panic (PanicError e))"
proof (cases "mongoConnect drv (uri m)")
  case (Inl e)
  then show ?thesis by (simp add: Connect_refused)
next
  case c: (Inr c)
  show ?thesis
  proof (cases "streamSnapshot m")
    case True
    then show ?thesis by (simp add: Connect_snapshot [OF True c])
  next
    case False
    show ?thesis
    proof (cases "collWatch drv (database m) (collection m)")
      case (Inl e)
      then show ?thesis by (simp add: Connect_unwatchable [OF False c Inl])
    next
      case (Inr s)
      then show ?thesis by (simp add: Connect_tail [OF False c Inr])
    qed
  qed
qed

lemma Connect_result: "result (Connect drv m) = Return r \<Longrightarrow> r = None"
  using Connect_result_cases [of drv m] by auto

lemma Closes_connected:
  "client m = Some c \<Longrightarrow>
   Closes drv n m =
     (map (\<lambda>i. Return (clientDisconnect drv i)) [disconnects c..<disconnects c + n],
      m\<lparr>client := Some (c\<lparr>disconnects := disconnects c + n\<rparr>)\<rparr>)"
proof (induction n arbitrary: m c)
  case 0
  have "m\<lparr>client := Some (c\<lparr>disconnects := disconnects c\<rparr>)\<rparr> = m"
    using 0 by (cases m, cases c) simp
  then show ?case by simp
next
  case (Suc n)
  define c' where "c' = c\<lparr>disconnects := Suc (disconnects c)\<rparr>"
  define m' where "m' = m\<lparr>client := Some c'\<rparr>"
  have cl: "Close drv m = (Return (clientDisconnect drv (disconnects c)), m')"
    unfolding m'_def c'_def by (rule Close_connected [OF Suc.prems])
  have c': "client m' = Some c'" by (simp add: m'_def)
  have ih: "Closes drv n m' =
     (map (\<lambda>i. Return (clientDisconnect drv i)) [disconnects c'..<disconnects c' + n],
      m'\<lparr>client := Some (c'\<lparr>disconnects := disconnects c' + n\<rparr>)\<rparr>)"
    by (rule Suc.IH [OF c'])
  have d: "disconnects c' = Suc (disconnects c)" by (simp add: c'_def)
  have l: "[disconnects c..<disconnects c + Suc n] =
           disconnects c # [Suc (disconnects c)..<Suc (disconnects c) + n]"
    by (simp add: upt_conv_Cons)
  have st: "m'\<lparr>client := Some (c'\<lparr>disconnects := disconnects c' + n\<rparr>)\<rparr> =
            m\<lparr>client := Some (c\<lparr>disconnects := disconnects c + Suc n\<rparr>)\<rparr>"
    by (simp add: m'_def c'_def)
  have "Closes drv (Suc n) m =
     (case Closes drv n m' of (rs, m'') \<Rightarrow> (Return (clientDisconnect drv (disconnects c)) # rs, m''))"
    by (simp only: Closes.simps cl prod.case outcome.case)
  also have "\<dots> =
     (Return (clientDisconnect drv (disconnects c)) #
        map (\<lambda>i. Return (clientDisconnect drv i)) [disconnects c'..<disconnects c' + n],
      m'\<lparr>client := Some (c'\<lparr>disconnects := disconnects c' + n\<rparr>)\<rparr>)"
    by (simp only: ih prod.case)
  also have "\<dots> =
     (map (\<lambda>i. Return (clientDisconnect drv i)) [disconnects c..<disconnects c + Suc n],
      m\<lparr>client := Some (c\<lparr>disconnects := disconnects c + Suc n\<rparr>)\<rparr>)"
    by (simp only: l list.map) (simp add: m'_def c'_def)
  finally show ?case .
qed

section \<open>Facts about the concrete inputs\<close>





lemma scriptedDriver_simps [simp]:
  "mongoConnect (scriptedDriver a f w) u = a"
  "collFind (scriptedDriver a f w) d c = f"
  "collWatch (scriptedDriver a f w) d c = w"
  "clientDisconnect (scriptedDriver a f w) n = (if n = 0 then None else Some ErrClientDisconnected)"
  by (simp_all add: scriptedDriver_def)





lemma example_numbered:
  "processMessage (exampleInput b) numberedRecord =
   Map.empty(''action'' \<mapsto> VInt 5, ''database'' \<mapsto> VString ''db'',
     ''collection'' \<mapsto> VString ''c'', ''data'' \<mapsto> VNil)"
  by (simp add: processMessage_def numberedRecord_def exampleInput_def index_def)

lemma exampleInput_simps [simp]:
  "uri (exampleInput b) = ''mongodb://localhost:27017''"
  "database (exampleInput b) = ''db''"
  "collection (exampleInput b) = ''c''"
  "client (exampleInput b) = None"
  "stream (exampleInput b) = []"
  "streamSnapshot (exampleInput b) = b"
  "context' (exampleInput b) = None"
  "cancelFunc (exampleInput b) = None"
  by (simp_all add: exampleInput_def)


lemma Connect_example_tail:
  "Connect (exampleDriver ds es) (exampleInput False) =
     \<lparr>result = Return None,
      conn = (exampleInput False)\<lparr>client := Some \<lparr>disconnects = 0\<rparr>, context' := Some False,
               cancelFunc := Some (),
               stream := map (processMessage (exampleInput False)) es\<rparr>,
      connTrace = [Call MongoConnect, Call Watch],
      spawned = Some \<lparr>trace = map (Send \<circ> processMessage (exampleInput False)) es @ [Call StreamClose],
                      ending = Returned\<rparr>\<rparr>"
proof -
  have c: "mongoConnect (exampleDriver ds es) (uri (exampleInput False)) = Inr \<lparr>disconnects = 0\<rparr>"
    by (simp add: exampleDriver_def)
  have w: "collWatch (exampleDriver ds es) (database (exampleInput False)) (collection (exampleInput False))
             = Inr (map Inr es)"
    by (simp add: exampleDriver_def)
  have s: "\<not> streamSnapshot (exampleInput False)" by simp
  have d: "decoded (map Inr es) = es" by (induction es) simp_all
  show ?thesis
    unfolding Connect_tail [OF s c w] iterateChangeStream_all d
    by simp
qed

section \<open>Normalization (claims C1 and C6)\<close>

text \<open>
  Claim C1. A raw record without an \<^verbatim>\<open>operationType\<close> field is normalized to
  an event with action \<^verbatim>\<open>insert\<close> whose payload is the raw record itself; a
  record whose \<^verbatim>\<open>operationType\<close> is the string \<^verbatim>\<open>delete\<close> gets as payload its
  \<^verbatim>\<open>documentKey\<close> entry; a record with any other \<^verbatim>\<open>operationType\<close> value gets
  that value, unchanged, as action and its \<^verbatim>\<open>fullDocument\<close> entry as payload.
\<close>

theorem processMessage_normalizes:
  "(raw ''operationType'' = None \<longrightarrow>
      index (processMessage m raw) ''action'' = VString ''insert'' \<and>
      index (processMessage m raw) ''data'' = VDoc raw) \<and>
   (raw ''operationType'' = Some (VString ''delete'') \<longrightarrow>
      index (processMessage m raw) ''action'' = VString ''delete'' \<and>
      index (processMessage m raw) ''data'' = index raw ''documentKey'') \<and>
   (\<forall>operation. raw ''operationType'' = Some operation \<and> operation \<noteq> VString ''delete'' \<longrightarrow>
      index (processMessage m raw) ''action'' = operation \<and>
      index (processMessage m raw) ''data'' = index raw ''fullDocument'')"
  by (simp add: processMessage_action processMessage_data)

text \<open>
  The three scenarios of the specification: a plain document, a delete
  envelope that also carries a full document, and an update envelope.
\<close>

theorem processMessage_normalizes_witness:
  "plainRecord ''operationType'' = None \<and>
   index (processMessage (exampleInput True) plainRecord) ''action'' = VString ''insert'' \<and>
   index (processMessage (exampleInput True) plainRecord) ''data'' = VDoc plainRecord \<and>
   deleteRecord ''operationType'' = Some (VString ''delete'') \<and>
   index (processMessage (exampleInput True) deleteRecord) ''action'' = VString ''delete'' \<and>
   index (processMessage (exampleInput True) deleteRecord) ''data'' =
     VDoc (Map.empty(''_id'' \<mapsto> VInt 1)) \<and>
   updateRecord ''operationType'' = Some (VString ''update'') \<and>
   VString ''update'' \<noteq> VString ''delete'' \<and>
   index (processMessage (exampleInput True) updateRecord) ''action'' = VString ''update'' \<and>
   index (processMessage (exampleInput True) updateRecord) ''data'' =
     VDoc (Map.empty(''_id'' \<mapsto> VInt 1, ''x'' \<mapsto> VInt 2))"
proof -
  have p: "plainRecord ''operationType'' = None"
    by (simp add: plainRecord_def)
  have d: "deleteRecord ''operationType'' = Some (VString ''delete'')"
    by (simp add: deleteRecord_def)
  have u: "updateRecord ''operationType'' = Some (VString ''update'')"
    by (simp add: updateRecord_def)
  have dk: "index deleteRecord ''documentKey'' = VDoc (Map.empty(''_id'' \<mapsto> VInt 1))"
    by (simp add: deleteRecord_def index_def)
  have fd: "index updateRecord ''fullDocument'' =
              VDoc (Map.empty(''_id'' \<mapsto> VInt 1, ''x'' \<mapsto> VInt 2))"
    by (simp add: updateRecord_def index_def)
  show ?thesis
    using processMessage_normalizes [of plainRecord "exampleInput True"]
      processMessage_normalizes [of deleteRecord "exampleInput True"]
      processMessage_normalizes [of updateRecord "exampleInput True"]
      p d u dk fd
    by simp
qed

text \<open>
  Claim C6. In every event built from a raw record, the database and
  collection entries are the connector's configured names, whatever the raw
  record holds, and the payload is one of three values taken from the raw
  record as they are: the record itself, its \<^verbatim>\<open>documentKey\<close> entry or its
  \<^verbatim>\<open>fullDocument\<close> entry. The event has exactly the four entries action,
  database, collection and data.
\<close>

theorem processMessage_static_names:
  "index (processMessage m raw) ''database'' = VString (database m) \<and>
   index (processMessage m raw) ''collection'' = VString (collection m) \<and>
   index (processMessage m raw) ''data'' \<in>
     {VDoc raw, index raw ''documentKey'', index raw ''fullDocument''} \<and>
   dom (processMessage m raw) = {''action'', ''database'', ''collection'', ''data''}"
  by (simp add: processMessage_database processMessage_collection processMessage_data
      processMessage_dom split: option.splits)

section \<open>Run modes (claims C2 and C7)\<close>



text \<open>
  Claim C7. In tail-only mode, on a freshly configured connector, neither
  \<^verbatim>\<open>Connect\<close> nor the task it starts calls \<^verbatim>\<open>Find\<close>; the events handed to
  \<^verbatim>\<open>Read\<close> are exactly the normalized records decoded from the change
  stream that \<^verbatim>\<open>Connect\<close> itself opened with \<^verbatim>\<open>Watch\<close>, and there are none
  when connecting or opening the change stream fails.
\<close>

theorem tail_only_no_snapshot:
  assumes "newMongoStreamInput conf = Inr m" and "\<not> streamSnapshot m"
  shows "Find \<notin> set (calls (connTrace (Connect drv m))) \<and>
     (case spawned (Connect drv m) of None \<Rightarrow> True | Some g \<Rightarrow> Find \<notin> set (calls (trace g))) \<and>
     stream (conn (Connect drv m)) =
       (case mongoConnect drv (uri m) of
          Inl e \<Rightarrow> []
        | Inr c \<Rightarrow>
            (case collWatch drv (database m) (collection m) of
               Inl e \<Rightarrow> []
             | Inr s \<Rightarrow> map (processMessage m) (decoded s))) \<and>
     (\<forall>c s. mongoConnect drv (uri m) = Inr c \<and> collWatch drv (database m) (collection m) = Inr s \<longrightarrow>
        result (Connect drv m) = Return None \<and>
        connTrace (Connect drv m) = [Call MongoConnect, Call Watch] \<and>
        spawned (Connect drv m) = Some (iterateChangeStream m s))"
proof -
  have fresh: "stream m = []"
    using newMongoStreamInput_fresh [OF assms(1)] by simp
  show ?thesis
  proof (cases "mongoConnect drv (uri m)")
    case (Inl e)
    show ?thesis unfolding Connect_refused [OF Inl] by (simp add: Inl fresh)
  next
    case c: (Inr c)
    show ?thesis
    proof (cases "collWatch drv (database m) (collection m)")
      case (Inl e)
      show ?thesis unfolding Connect_unwatchable [OF assms(2) c Inl] by (simp add: c Inl fresh)
    next
      case (Inr s)
      show ?thesis unfolding Connect_tail [OF assms(2) c Inr]
        by (simp add: c Inr fresh calls_iterateChangeStream)
    qed
  qed
qed

text \<open>
  The collection holds a document, but only the two change events are
  delivered.
\<close>

theorem tail_only_no_snapshot_witness:
  "newMongoStreamInput (exampleConfig False) = Inr (exampleInput False) \<and>
   \<not> streamSnapshot (exampleInput False) \<and>
   Find \<notin> set (calls (connTrace (Connect (exampleDriver [plainRecord] [updateRecord, deleteRecord])
                                (exampleInput False)))) \<and>
   connTrace (Connect (exampleDriver [plainRecord] [updateRecord, deleteRecord]) (exampleInput False)) =
     [Call MongoConnect, Call Watch] \<and>
   stream (conn (Connect (exampleDriver [plainRecord] [updateRecord, deleteRecord]) (exampleInput False))) =
     [processMessage (exampleInput False) updateRecord, processMessage (exampleInput False) deleteRecord]"
proof -
  let ?D = "exampleDriver [plainRecord] [updateRecord, deleteRecord]"
  let ?m = "exampleInput False"
  have h1: "newMongoStreamInput (exampleConfig False) = Inr ?m" by (rule exampleConfig_input)
  have h2: "\<not> streamSnapshot ?m" by simp
  have c: "mongoConnect ?D (uri ?m) = Inr \<lparr>disconnects = 0\<rparr>" by (simp add: exampleDriver_def)
  have w: "collWatch ?D (database ?m) (collection ?m) = Inr (map Inr [updateRecord, deleteRecord])"
    by (simp add: exampleDriver_def)
  show ?thesis
    using tail_only_no_snapshot [OF h1 h2, of ?D] h1 h2 c w by simp
qed

section \<open>Lifecycle (claims C3, C4 and C5)\<close>




text \<open>
  Claim C4, as amended. \<^verbatim>\<open>Connect\<close> never returns an error. When
  \<^verbatim>\<open>mongo.Connect\<close> fails, or in tail-only mode opening the change stream
  fails, \<^verbatim>\<open>Connect\<close> panics with that error, starts no background task and
  no event reaches the channel. In snapshot mode \<^verbatim>\<open>Connect\<close> returns nil
  before the cursor and the change stream are opened; a failure of \<^verbatim>\<open>Find\<close>
  then panics in the background task before any event is sent, and a failure
  of \<^verbatim>\<open>Watch\<close> panics there after the snapshot events have been sent.
\<close>

theorem Connect_failure_panics:
  "(\<forall>e. result (Connect drv m) \<noteq> Return (Some e)) \<and>
   (\<forall>e. mongoConnect drv (uri m) = Inl e \<longrightarrow>
      result (Connect drv m) = Panic (PanicError e) \<and> spawned (Connect drv m) = None \<and>
      stream (conn (Connect drv m)) = stream m) \<and>
   (\<forall>c e. \<not> streamSnapshot m \<and> mongoConnect drv (uri m) = Inr c \<and>
      collWatch drv (database m) (collection m) = Inl e \<longrightarrow>
      result (Connect drv m) = Panic (PanicError e) \<and> spawned (Connect drv m) = None \<and>
      stream (conn (Connect drv m)) = stream m) \<and>
   (\<forall>c e. streamSnapshot m \<and> mongoConnect drv (uri m) = Inr c \<and>
      collFind drv (database m) (collection m) = Inl e \<longrightarrow>
      result (Connect drv m) = Return None \<and>
      spawned (Connect drv m) =
        Some \<lparr>trace = [Call Find, Print ''Snapshot''], ending = Panicked e\<rparr> \<and>
      stream (conn (Connect drv m)) = stream m) \<and>
   (\<forall>c ds e. streamSnapshot m \<and> mongoConnect drv (uri m) = Inr c \<and>
      collFind drv (database m) (collection m) = Inr \<lparr>items = map Inr ds, cursorErr = None\<rparr> \<and>
      collWatch drv (database m) (collection m) = Inl e \<longrightarrow>
      result (Connect drv m) = Return None \<and>
      spawned (Connect drv m) =
        Some \<lparr>trace = [Call Find, Print ''Snapshot''] @ map (Send \<circ> processMessage m) ds @
                       [Call CursorClose, Call Watch],
              ending = Panicked e\<rparr> \<and>
      stream (conn (Connect drv m)) = stream m @ map (processMessage m) ds)"
proof (intro conjI allI impI)
  fix e
  show "result (Connect drv m) \<noteq> Return (Some e)"
    using Connect_result [of drv m "Some e"] by auto
next
  fix e assume h: "mongoConnect drv (uri m) = Inl e"
  show "result (Connect drv m) = Panic (PanicError e)" "spawned (Connect drv m) = None"
    "stream (conn (Connect drv m)) = stream m"
    unfolding Connect_refused [OF h] by simp_all
next
  fix c e
  assume h: "\<not> streamSnapshot m \<and> mongoConnect drv (uri m) = Inr c \<and>
      collWatch drv (database m) (collection m) = Inl e"
  then have C: "Connect drv m =
     \<lparr>result = Panic (PanicError e),
      conn = m\<lparr>client := Some c, context' := Some False, cancelFunc := Some ()\<rparr>,
      connTrace = [Call MongoConnect, Call Watch], spawned = None\<rparr>"
    by (intro Connect_unwatchable) simp_all
  show "result (Connect drv m) = Panic (PanicError e)" "spawned (Connect drv m) = None"
    "stream (conn (Connect drv m)) = stream m"
    unfolding C by simp_all
next
  fix c e
  assume h: "streamSnapshot m \<and> mongoConnect drv (uri m) = Inr c \<and>
      collFind drv (database m) (collection m) = Inl e"
  then have C: "Connect drv m =
     \<lparr>result = Return None,
      conn = m\<lparr>client := Some c, context' := Some False, cancelFunc := Some (),
                stream := stream m @ sends (trace (takeSnapshot drv m))\<rparr>,
      connTrace = [Call MongoConnect], spawned = Some (takeSnapshot drv m)\<rparr>"
    by (intro Connect_snapshot) simp_all
  have T: "takeSnapshot drv m = \<lparr>trace = [Call Find, Print ''Snapshot''], ending = Panicked e\<rparr>"
    using h by (simp add: takeSnapshot_def)
  show "result (Connect drv m) = Return None"
    "spawned (Connect drv m) = Some \<lparr>trace = [Call Find, Print ''Snapshot''], ending = Panicked e\<rparr>"
    "stream (conn (Connect drv m)) = stream m"
    unfolding C T by simp_all
next
  fix c ds e
  assume h: "streamSnapshot m \<and> mongoConnect drv (uri m) = Inr c \<and>
      collFind drv (database m) (collection m) = Inr \<lparr>items = map Inr ds, cursorErr = None\<rparr> \<and>
      collWatch drv (database m) (collection m) = Inl e"
  then have C: "Connect drv m =
     \<lparr>result = Return None,
      conn = m\<lparr>client := Some c, context' := Some False, cancelFunc := Some (),
                stream := stream m @ sends (trace (takeSnapshot drv m))\<rparr>,
      connTrace = [Call MongoConnect], spawned = Some (takeSnapshot drv m)\<rparr>"
    by (intro Connect_snapshot) simp_all
  have T: "takeSnapshot drv m =
     \<lparr>trace = [Call Find, Print ''Snapshot''] @ map (Send \<circ> processMessage m) ds @
              [Call CursorClose, Call Watch],
      ending = Panicked e\<rparr>"
    using h by (simp add: takeSnapshot_def iterateCursor_all Let_def)
  show "result (Connect drv m) = Return None"
    "spawned (Connect drv m) =
        Some \<lparr>trace = [Call Find, Print ''Snapshot''] @ map (Send \<circ> processMessage m) ds @
                       [Call CursorClose, Call Watch],
              ending = Panicked e\<rparr>"
    "stream (conn (Connect drv m)) = stream m @ map (processMessage m) ds"
    unfolding C T by (simp_all add: sends_append sends_map_Send)
qed

text \<open>
  A driver that refuses the connection, and one that connects but can open
  neither cursor nor change stream, in both modes.
\<close>

theorem Connect_failure_panics_witness:
  "mongoConnect (scriptedDriver (Inl refused) (Inl refused) (Inl refused)) (uri (exampleInput False))
     = Inl refused \<and>
   result (Connect (scriptedDriver (Inl refused) (Inl refused) (Inl refused)) (exampleInput False))
     = Panic (PanicError refused) \<and>
   spawned (Connect (scriptedDriver (Inl refused) (Inl refused) (Inl refused)) (exampleInput False))
     = None \<and>
   result (Connect (scriptedDriver (Inr \<lparr>disconnects = 0\<rparr>) (Inl refused) (Inl refused))
             (exampleInput False)) = Panic (PanicError refused) \<and>
   stream (conn (Connect (scriptedDriver (Inr \<lparr>disconnects = 0\<rparr>) (Inl refused) (Inl refused))
             (exampleInput False))) = [] \<and>
   result (Connect (scriptedDriver (Inr \<lparr>disconnects = 0\<rparr>) (Inl refused) (Inl refused))
             (exampleInput True)) = Return None \<and>
   spawned (Connect (scriptedDriver (Inr \<lparr>disconnects = 0\<rparr>) (Inl refused) (Inl refused))
             (exampleInput True)) =
     Some \<lparr>trace = [Call Find, Print ''Snapshot''], ending = Panicked refused\<rparr> \<and>
   stream (conn (Connect (scriptedDriver (Inr \<lparr>disconnects = 0\<rparr>)
                            (Inr \<lparr>items = map Inr [plainRecord], cursorErr = None\<rparr>) (Inl refused))
             (exampleInput True))) = [processMessage (exampleInput True) plainRecord]"
  using Connect_failure_panics [of "scriptedDriver (Inl refused) (Inl refused) (Inl refused)"
      "exampleInput False"]
    Connect_failure_panics [of "scriptedDriver (Inr \<lparr>disconnects = 0\<rparr>) (Inl refused) (Inl refused)"
      "exampleInput False"]
    Connect_failure_panics [of "scriptedDriver (Inr \<lparr>disconnects = 0\<rparr>) (Inl refused) (Inl refused)"
      "exampleInput True"]
    Connect_failure_panics [of "scriptedDriver (Inr \<lparr>disconnects = 0\<rparr>)
        (Inr \<lparr>items = map Inr [plainRecord], cursorErr = None\<rparr>) (Inl refused)" "exampleInput True",
      THEN conjunct2, THEN conjunct2, THEN conjunct2, THEN conjunct2, rule_format,
      of "\<lparr>disconnects = 0\<rparr>" "[plainRecord]" refused]
  by simp

text \<open>
  Claim C4 as stated fails: when the connection is refused, or the change
  stream cannot be opened, \<^verbatim>\<open>Connect\<close> does not return the error but
  panics.
\<close>

theorem Connect_returns_error_counterexample:
  "result (Connect (scriptedDriver (Inl refused) (Inl refused) (Inl refused)) (exampleInput False))
     \<noteq> Return (Some refused) \<and>
   result (Connect (scriptedDriver (Inl refused) (Inl refused) (Inl refused)) (exampleInput False))
     = Panic (PanicError refused) \<and>
   result (Connect (scriptedDriver (Inr \<lparr>disconnects = 0\<rparr>) (Inl refused) (Inl refused))
             (exampleInput False)) = Panic (PanicError refused)"
  by (simp add: Connect_refused Connect_unwatchable)

text \<open>
  Claim C5, as amended. On a connected connector every call of \<^verbatim>\<open>Close\<close>
  invokes the driver's \<^verbatim>\<open>Disconnect\<close> on the stored handle again and returns
  what the driver answers to that invocation; the handle stays stored and
  nothing else in the connector changes.
\<close>

theorem Close_repeats_Disconnect:
  "client m = Some c \<Longrightarrow>
   Close drv m =
     (Return (clientDisconnect drv (disconnects c)),
      m\<lparr>client := Some (c\<lparr>disconnects := Suc (disconnects c)\<rparr>)\<rparr>) \<and>
   Closes drv n m =
     (map (\<lambda>i. Return (clientDisconnect drv i)) [disconnects c..<disconnects c + n],
      m\<lparr>client := Some (c\<lparr>disconnects := disconnects c + n\<rparr>)\<rparr>)"
proof
  assume c: "client m = Some c"
  show "Close drv m =
     (Return (clientDisconnect drv (disconnects c)),
      m\<lparr>client := Some (c\<lparr>disconnects := Suc (disconnects c)\<rparr>)\<rparr>)"
    using c by (simp add: Close_def)
  show "Closes drv n m =
     (map (\<lambda>i. Return (clientDisconnect drv i)) [disconnects c..<disconnects c + n],
      m\<lparr>client := Some (c\<lparr>disconnects := disconnects c + n\<rparr>)\<rparr>)"
    by (rule Closes_connected [OF c])
qed

text \<open>
  Three calls after a successful \<^verbatim>\<open>Connect\<close>: three invocations of
  \<^verbatim>\<open>Disconnect\<close>, the second and third answered with the driver's error
  for a disconnected client.
\<close>

theorem Close_repeats_Disconnect_witness:
  "client (conn (Connect (exampleDriver [] []) (exampleInput False))) = Some \<lparr>disconnects = 0\<rparr> \<and>
   Closes (exampleDriver [] []) 3 (conn (Connect (exampleDriver [] []) (exampleInput False))) =
     ([Return None, Return (Some ErrClientDisconnected), Return (Some ErrClientDisconnected)],
      (conn (Connect (exampleDriver [] []) (exampleInput False)))\<lparr>client := Some \<lparr>disconnects = 3\<rparr>\<rparr>)"
proof -
  let ?M = "conn (Connect (exampleDriver [] []) (exampleInput False))"
  have c: "client ?M = Some \<lparr>disconnects = 0\<rparr>"
    by (simp add: Connect_example_tail)
  have l: "[0..<3] = [0, Suc 0, 2]" by (simp add: upt_rec)
  show ?thesis
    using Close_repeats_Disconnect [OF c, of "exampleDriver [] []" 3] c
    by (simp add: l exampleDriver_def)
qed

text \<open>
  Claim C5 as stated fails: the second call of \<^verbatim>\<open>Close\<close> releases the
  connection a second time and returns an error.
\<close>

theorem Close_idempotent_counterexample:
  "fst (Closes (exampleDriver [] []) 2 (conn (Connect (exampleDriver [] []) (exampleInput False)))) =
     [Return None, Return (Some ErrClientDisconnected)] \<and>
   client (snd (Closes (exampleDriver [] []) 1 (conn (Connect (exampleDriver [] []) (exampleInput False)))))
     = Some \<lparr>disconnects = 1\<rparr> \<and>
   client (snd (Closes (exampleDriver [] []) 2 (conn (Connect (exampleDriver [] []) (exampleInput False)))))
     = Some \<lparr>disconnects = 2\<rparr>"
proof -
  let ?M = "conn (Connect (exampleDriver [] []) (exampleInput False))"
  have c: "client ?M = Some \<lparr>disconnects = 0\<rparr>"
    by (simp add: Connect_example_tail)
  have l: "[0..<2] = [0, Suc 0]" by (simp add: upt_rec)
  show ?thesis
    unfolding Closes_connected [OF c] by (simp add: l exampleDriver_def)
qed

section \<open>Reading (claims C8, C9 and C10)\<close>






text \<open>
  Claim C10. The action of an event is the raw record's
  \<^verbatim>\<open>operationType\<close> value as it is; when that value is not a string, the
  call of \<^verbatim>\<open>Read\<close> that receives the event panics at the type assertion
  on the action, and returns neither a message nor an error.
\<close>

theorem Read_panics_on_non_string_operationType:
  "raw ''operationType'' = Some v \<Longrightarrow> \<not> isString v \<Longrightarrow>
   stream m = processMessage m0 raw # rest \<Longrightarrow>
   Read marshal m = (Panic (InterfaceConversion v), m\<lparr>stream := rest\<rparr>)"
proof -
  assume op: "raw ''operationType'' = Some v" and ns: "\<not> isString v"
    and st: "stream m = processMessage m0 raw # rest"
  have a: "index (processMessage m0 raw) ''action'' = v"
    using op by (simp add: processMessage_action)
  have c: "assertString (index (processMessage m0 raw) ''collection'') = Inr (collection m0)"
    and d: "assertString (index (processMessage m0 raw) ''database'') = Inr (database m0)"
    by (simp_all add: processMessage_collection processMessage_database)
  have p: "assertString v = Inl (InterfaceConversion v)"
    by (rule assertString_panic [OF ns])
  show ?thesis
    by (simp add: Read_def st Let_def a c d p)
qed

text \<open>
  A change event whose operation type is the number 5, first on the change
  stream in tail-only mode.
\<close>

theorem Read_panics_on_non_string_operationType_witness:
  "numberedRecord ''operationType'' = Some (VInt 5) \<and> \<not> isString (VInt 5) \<and>
   stream (conn (Connect (exampleDriver [] [numberedRecord, updateRecord]) (exampleInput False))) =
     [processMessage (exampleInput False) numberedRecord,
      processMessage (exampleInput False) updateRecord] \<and>
   (\<forall>enc. fst (Read (jsonMarshal enc)
            (conn (Connect (exampleDriver [] [numberedRecord, updateRecord]) (exampleInput False)))) =
      Panic (InterfaceConversion (VInt 5)))"
proof -
  let ?M = "conn (Connect (exampleDriver [] [numberedRecord, updateRecord]) (exampleInput False))"
  have o: "numberedRecord ''operationType'' = Some (VInt 5)"
    by (simp add: numberedRecord_def)
  have n: "\<not> isString (VInt 5)" by simp
  have s: "stream ?M = processMessage (exampleInput False) numberedRecord #
                       [processMessage (exampleInput False) updateRecord]"
    by (simp add: Connect_example_tail)
  have "fst (Read (jsonMarshal enc) ?M) = Panic (InterfaceConversion (VInt 5))" for enc
    using Read_panics_on_non_string_operationType [OF o n s, of "jsonMarshal enc"] by simp
  with o n s show ?thesis by simp
qed

end
